theory Spec2Isabelle
  imports Main "HOL-Library.Multiset"
begin

section \<open>Leftover recipe finder: server.js and the substitution client of RecipeCard.js\<close>

text \<open>
  The development embeds the two request handlers of \<^verbatim>\<open>server.js\<close>
  (\<^verbatim>\<open>GET /api/recipes\<close> and \<^verbatim>\<open>GET /api/substitutions\<close>) and the function
  \<^verbatim>\<open>fetchSubstitutions\<close> of \<^verbatim>\<open>RecipeCard.js\<close>.

  Line numbers are those of \<^verbatim>\<open>src/client/src/components/RecipeCard.js\<close>, the file
  that holds the text of both sources.

  Modelling conventions.
  \<^item> A JavaScript string is a HOL \<open>string\<close>; each \<open>char\<close> stands for one UTF-16 code unit
    in the range U+0000 to U+00FF, read through \<open>code_unit\<close>.
  \<^item> The two process-wide caches are maps that a handler receives and returns.
  \<^item> The Spoonacular endpoints are the three functions of a \<open>world\<close>; a handler also
    returns the list of calls it made, in order.
  \<^item> A rejected promise, a thrown exception and an HTTP error status are values.
\<close>

subsection \<open>Characters and the string methods used by the source\<close>

definition code_unit :: "char \<Rightarrow> nat" where
  "code_unit c = of_char c"

text \<open>The class \<^verbatim>\<open>\s\<close> of a regular expression, which is also what \<^verbatim>\<open>trim()\<close> removes:
  tab, line feed, vertical tab, form feed, carriage return, space, no-break space.\<close>

definition is_space :: "char \<Rightarrow> bool" where
  "is_space c \<longleftrightarrow> code_unit c \<in> {9, 10, 11, 12, 13, 32, 160}"

definition is_lower_az :: "char \<Rightarrow> bool" where
  "is_lower_az c \<longleftrightarrow> 97 \<le> code_unit c \<and> code_unit c \<le> 122"

definition is_digit :: "char \<Rightarrow> bool" where
  "is_digit c \<longleftrightarrow> 48 \<le> code_unit c \<and> code_unit c \<le> 57"

text \<open>The class \<^verbatim>\<open>\w\<close>, which decides where \<^verbatim>\<open>\b\<close> holds.\<close>

definition is_word :: "char \<Rightarrow> bool" where
  "is_word c \<longleftrightarrow>
     is_lower_az c \<or> (65 \<le> code_unit c \<and> code_unit c \<le> 90) \<or> is_digit c \<or> c = CHR ''_''"

text \<open>The characters that \<^verbatim>\<open>.\<close> does not match.\<close>

definition is_line_terminator :: "char \<Rightarrow> bool" where
  "is_line_terminator c \<longleftrightarrow> code_unit c = 10 \<or> code_unit c = 13"

text \<open>\<^verbatim>\<open>toLowerCase()\<close>: the letters A to Z and the capital letters of U+00C0 to U+00DE
  (the multiplication sign U+00D7 apart) move up by 32; everything else stays.\<close>

definition toLowerChar :: "char \<Rightarrow> char" where
  "toLowerChar c =
     (let n = code_unit c
      in if (65 \<le> n \<and> n \<le> 90) \<or> (192 \<le> n \<and> n \<le> 222 \<and> n \<noteq> 215)
         then char_of (n + 32) else c)"

definition toLowerCase :: "string \<Rightarrow> string" where
  "toLowerCase s = map toLowerChar s"

definition trim :: "string \<Rightarrow> string" where
  "trim s = rev (dropWhile is_space (rev (dropWhile is_space s)))"

text \<open>\<^verbatim>\<open>s.split(",")\<close>: the empty string gives one empty token.\<close>

fun split_comma :: "string \<Rightarrow> string list" where
  "split_comma [] = [Nil]"
| "split_comma (c # cs) =
     (if c = CHR '','' then [] # split_comma cs
      else (case split_comma cs of [] \<Rightarrow> [c] # Nil | w # ws \<Rightarrow> (c # w) # ws))"

text \<open>\<^verbatim>\<open>xs.join(",")\<close>.\<close>

fun join_comma :: "string list \<Rightarrow> string" where
  "join_comma [] = []"
| "join_comma [x] = x"
| "join_comma (x # y # ys) = x @ CHR '','' # join_comma (y # ys)"

text \<open>The decimal rendering of a number inside a template literal, for the integers of
  magnitude below \<open>10^21\<close>: from there on JavaScript prints an exponent, which is outside
  the model. No property below depends on how the number is printed.\<close>

function digits_of :: "nat \<Rightarrow> string" where
  "digits_of n =
     (if n < 10 then [char_of (48 + n)] else digits_of (n div 10) @ [char_of (48 + n mod 10)])"
  by pat_completeness auto
termination
  by (relation "measure id") auto

declare digits_of.simps [simp del]

definition number_toString :: "int \<Rightarrow> string" where
  "number_toString n = (if n < 0 then CHR ''-'' # digits_of (nat (- n)) else digits_of (nat n))"

text \<open>\<^verbatim>\<open>[...new Set(xs)]\<close>: a Set keeps its members in insertion order and ignores a
  value that it already holds.\<close>

fun set_add_all :: "'a list \<Rightarrow> 'a list \<Rightarrow> 'a list" where
  "set_add_all seen [] = seen"
| "set_add_all seen (x # xs) = set_add_all (if x \<in> set seen then seen else seen @ [x]) xs"

definition spread_set :: "'a list \<Rightarrow> 'a list" where
  "spread_set xs = set_add_all [] xs"

subsection \<open>Ingredient normalisation and the cache key (lines 272 to 302)\<close>

text \<open>\<^verbatim>\<open>replace(/\s+/g, " ")\<close>: the space is written at the first character of a run of
  white space, and the rest of the run is dropped.\<close>

fun collapse_from :: "bool \<Rightarrow> string \<Rightarrow> string" where
  "collapse_from in_run [] = []"
| "collapse_from in_run (c # cs) =
     (if is_space c
      then (if in_run then collapse_from True cs else CHR '' '' # collapse_from True cs)
      else c # collapse_from False cs)"

definition collapse_spaces :: "string \<Rightarrow> string" where
  "collapse_spaces s = collapse_from False s"

definition normalizeIngredient :: "string \<Rightarrow> string" where
  "normalizeIngredient name =
     trim (collapse_spaces (filter (\<lambda>c. is_lower_az c \<or> is_space c) (toLowerCase name)))"

definition pantry :: "string list" where
  "pantry = [''salt'', ''oil'']"

text \<open>\<^verbatim>\<open>filter(Boolean)\<close> drops the empty string, the only falsy string.\<close>

definition cleanIngredients :: "string \<Rightarrow> string list" where
  "cleanIngredients ingredients =
     filter (\<lambda>s. s \<noteq> []) (map normalizeIngredient (split_comma ingredients))"

definition ingSet :: "string \<Rightarrow> string list" where
  "ingSet ingredients = spread_set (cleanIngredients ingredients)"

text \<open>Line 297 before the join, \<^verbatim>\<open>[...new Set([...ingSet, ...pantry])]\<close>: the pantry
  augmentation.\<close>

definition augment :: "string list \<Rightarrow> string list" where
  "augment s = spread_set (s @ pantry)"

definition finalIngredients :: "string \<Rightarrow> string" where
  "finalIngredients ingredients = join_comma (augment (ingSet ingredients))"

definition cacheKey :: "string \<Rightarrow> int \<Rightarrow> string list \<Rightarrow> string" where
  "cacheKey fin number cuisine =
     fin @ ''|'' @ number_toString number @ ''|'' @ join_comma cuisine"

subsection \<open>Recipes (lines 331 to 391)\<close>

record ingredient =
  ing_id :: int
  ing_name :: string

text \<open>One element of the answer of \<^verbatim>\<open>findByIngredients\<close>; an optional field is \<open>None\<close>
  when the catalog leaves it out.\<close>

record raw_recipe =
  raw_id :: int
  raw_title :: string
  raw_image :: string
  raw_cuisines :: "string list option"
  raw_dishTypes :: "string list option"
  raw_readyInMinutes :: "int option"
  raw_usedIngredients :: "ingredient list option"
  raw_missedIngredients :: "ingredient list option"

record recipe =
  recipe_id :: int
  title :: string
  recipe_image :: string
  cuisines :: "string list"
  dishTypes :: "string list"
  readyInMinutes :: int
  usedIngredients :: "ingredient list"
  missedIngredients :: "ingredient list"
  matchesCuisine :: bool
  sourceUrl :: "string option"

definition or_empty :: "'a list option \<Rightarrow> 'a list" where
  "or_empty v = (case v of None \<Rightarrow> [] | Some xs \<Rightarrow> xs)"

text \<open>The callback of \<^verbatim>\<open>response.data.map\<close>.\<close>

definition shapeRecipe :: "string list \<Rightarrow> raw_recipe \<Rightarrow> recipe" where
  "shapeRecipe cuisine r =
     \<lparr> recipe_id = raw_id r,
       title = raw_title r,
       recipe_image = raw_image r,
       cuisines = or_empty (raw_cuisines r),
       dishTypes = or_empty (raw_dishTypes r),
       readyInMinutes = (case raw_readyInMinutes r of None \<Rightarrow> 0 | Some m \<Rightarrow> m),
       usedIngredients = or_empty (raw_usedIngredients r),
       missedIngredients = or_empty (raw_missedIngredients r),
       matchesCuisine =
         (cuisine = [] \<or> list_ex (\<lambda>c. toLowerCase c \<in> set cuisine) (or_empty (raw_cuisines r))),
       sourceUrl = None \<rparr>"

definition score :: "recipe \<Rightarrow> int" where
  "score r = int (length (usedIngredients r)) - int (length (missedIngredients r))"

text \<open>The comparator handed to \<^verbatim>\<open>recipes.sort\<close>.\<close>

definition compare_recipes :: "recipe \<Rightarrow> recipe \<Rightarrow> int" where
  "compare_recipes a b =
     (let scoreA = score a; scoreB = score b
      in if scoreB = scoreA
         then of_bool (matchesCuisine b) - of_bool (matchesCuisine a)
         else scoreB - scoreA)"

text \<open>\<^verbatim>\<open>Array.prototype.sort\<close> is stable; for a comparator that is a consistent ordering
  its result is determined, and a stable insertion sort computes it: an element goes in
  front of the first element that it does not come after.\<close>

fun insert_sorted :: "('a \<Rightarrow> 'a \<Rightarrow> int) \<Rightarrow> 'a \<Rightarrow> 'a list \<Rightarrow> 'a list" where
  "insert_sorted cmp x [] = [x]"
| "insert_sorted cmp x (y # ys) =
     (if cmp x y \<le> 0 then x # y # ys else y # insert_sorted cmp x ys)"

fun js_sort :: "('a \<Rightarrow> 'a \<Rightarrow> int) \<Rightarrow> 'a list \<Rightarrow> 'a list" where
  "js_sort cmp [] = []"
| "js_sort cmp (x # xs) = insert_sorted cmp x (js_sort cmp xs)"

definition rank :: "recipe list \<Rightarrow> recipe list" where
  "rank recipes = js_sort compare_recipes recipes"

text \<open>\<^verbatim>\<open>xs.slice(0, n)\<close>: a negative end counts from the end of the array.\<close>

definition slice0 :: "int \<Rightarrow> 'a list \<Rightarrow> 'a list" where
  "slice0 n xs = (if n < 0 then take (nat (int (length xs) + n)) xs else take (nat n) xs)"

subsection \<open>The external catalog\<close>

datatype 'a outcome = Rejected | Resolved 'a

text \<open>The body of a substitution answer of the catalog.\<close>

record subs_data =
  data_status :: string
  data_substitutes :: "string list option"
  data_message :: string

text \<open>\<open>information\<close> gives the field \<^verbatim>\<open>sourceUrl\<close> of the detail record, when it has one.
  \<open>Rejected\<close> stands for every way in which the awaited call throws.\<close>

record world =
  findByIngredients :: "string \<Rightarrow> int \<Rightarrow> raw_recipe list outcome"
  information :: "int \<Rightarrow> string option outcome"
  substitutes :: "string \<Rightarrow> subs_data outcome"

datatype ext_call =
    FindByIngredients string int
  | Information int
  | SubstitutesOf string

subsection \<open>GET /api/recipes (lines 254 to 402)\<close>

text \<open>The query of a request. \<open>q_number\<close> is the value of \<^verbatim>\<open>parseInt(req.query.number)\<close>,
  with \<open>None\<close> for \<^verbatim>\<open>NaN\<close>.\<close>

record query =
  q_ingredients :: "string option"
  q_number :: "int option"
  q_cuisine :: "string option"

text \<open>\<open>Uncaught\<close>: an exception leaves the handler and no reply is written.\<close>

datatype recipes_reply =
    Json "recipe list"
  | Status nat string
  | Uncaught

type_synonym recipe_cache = "string \<rightharpoonup> recipe list"

definition requestedNumber :: "query \<Rightarrow> int" where
  "requestedNumber q = (case q_number q of None \<Rightarrow> 3 | Some n \<Rightarrow> if n = 0 then 3 else n)"

definition requestedCuisine :: "query \<Rightarrow> string list" where
  "requestedCuisine q =
     (case q_cuisine q of
        None \<Rightarrow> []
      | Some c \<Rightarrow> if c = [] then [] else map toLowerCase (split_comma c))"

definition requestKey :: "query \<Rightarrow> string \<Rightarrow> string" where
  "requestKey q ingredients =
     cacheKey (finalIngredients ingredients) (requestedNumber q) (requestedCuisine q)"

text \<open>The body of the detail loop: \<^verbatim>\<open>detail.data.sourceUrl || "#"\<close>, and \<^verbatim>\<open>"#"\<close> in the
  handler of the inner \<^verbatim>\<open>try\<close>.\<close>

definition resolveSourceUrl :: "world \<Rightarrow> recipe \<Rightarrow> recipe" where
  "resolveSourceUrl w r =
     r\<lparr>sourceUrl :=
         Some (case information w (recipe_id r) of
                 Rejected \<Rightarrow> ''#''
               | Resolved None \<Rightarrow> ''#''
               | Resolved (Some u) \<Rightarrow> if u = [] then ''#'' else u)\<rparr>"

definition fetchDetails :: "world \<Rightarrow> recipe list \<Rightarrow> recipe list" where
  "fetchDetails w recipes = map (resolveSourceUrl w) recipes"

text \<open>The handler. The cache is read with a key that holds the character \<open>|\<close>, which no
  member of \<^verbatim>\<open>Object.prototype\<close> has in its name, so the read is the read of a map; a
  stored list is truthy, also when it is empty.\<close>

definition recipes_handler ::
  "world \<Rightarrow> recipe_cache \<Rightarrow> query \<Rightarrow> recipes_reply \<times> recipe_cache \<times> ext_call list" where
  "recipes_handler w recipeCache q =
     (case q_ingredients q of
        None \<Rightarrow> (Uncaught, recipeCache, [])
      | Some ingredients \<Rightarrow>
          (let number = requestedNumber q;
               cuisine = requestedCuisine q;
               fin = finalIngredients ingredients;
               key = cacheKey fin number cuisine
           in case recipeCache key of
                Some cached \<Rightarrow> (Json cached, recipeCache, [])
              | None \<Rightarrow>
                  if fin = [] then (Status 400 ''Please provide ingredients'', recipeCache, [])
                  else
                    (case findByIngredients w fin number of
                       Rejected \<Rightarrow>
                         (Status 500 ''Failed to fetch recipes'', recipeCache,
                          [FindByIngredients fin number])
                     | Resolved data \<Rightarrow>
                         (let shaped = map (shapeRecipe cuisine) data;
                              recipes = slice0 number (rank (fetchDetails w shaped))
                          in (Json recipes, recipeCache(key \<mapsto> recipes),
                              FindByIngredients fin number
                                # map (\<lambda>r. Information (recipe_id r)) shaped)))))"

subsection \<open>GET /api/substitutions (lines 417 to 507)\<close>

text \<open>Reading \<^verbatim>\<open>obj[k]\<close> on an object literal also finds the members of
  \<^verbatim>\<open>Object.prototype\<close>. The handler reads with a key in lower case, and the only
  member names without a capital letter are \<^verbatim>\<open>constructor\<close> and \<^verbatim>\<open>__proto__\<close>.\<close>

datatype 'a property = Undefined | Own 'a | Inherited

definition inherited_names :: "string list" where
  "inherited_names = [''constructor'', ''__proto__'']"

definition get_property :: "(string \<rightharpoonup> 'a) \<Rightarrow> string \<Rightarrow> 'a property" where
  "get_property obj k =
     (case obj k of
        Some v \<Rightarrow> Own v
      | None \<Rightarrow> if k \<in> set inherited_names then Inherited else Undefined)"

text \<open>The field \<^verbatim>\<open>substitutes\<close> of a reply as the client reads it: a list of strings
  (truthy, also when empty), another truthy value, or \<open>Missing\<close> for a falsy value and for a
  body without the field.\<close>

datatype subs_field = Substitutes "string list" | OtherTruthy | Missing

text \<open>\<open>BadRequest\<close> is status 400 with a body that has no \<^verbatim>\<open>ingredient\<close>; \<open>Answer\<close> is
  status 200 with \<^verbatim>\<open>{ingredient, substitutes}\<close>; \<open>Forwarded\<close> is status 200 with the body
  of the catalog.\<close>

datatype subs_reply =
    BadRequest "string list"
  | Answer string subs_field
  | Forwarded subs_data

type_synonym subs_cache = "string \<rightharpoonup> string list"

definition no_known :: "string \<Rightarrow> string" where
  "no_known ingredient = ''No known substitutes for '' @ ingredient"

definition defaultSubs_table :: "(string \<times> string list) list" where
  "defaultSubs_table =
     [(''milk'', [''oat milk'', ''almond milk'', ''soy milk'']),
      (''butter'', [''margarine'', ''coconut oil'', ''olive oil'']),
      (''egg'', [''flax egg'', ''chia egg'', ''applesauce'']),
      (''sugar'', [''honey'', ''maple syrup'', ''coconut sugar'']),
      (''cheese'', [''nutritional yeast'', ''vegan cheese'']),
      (''cream'', [''coconut cream'', ''cashew cream'']),
      (''flour'', [''almond flour'', ''oat flour'']),
      (''basil'', [''oregano'', ''thyme'', ''spinach'']),
      (''broccoli'', [''cauliflower'', ''brussels sprouts'', ''asparagus'']),
      (''garlic'', [''shallots'', ''garlic powder'', ''chives'']),
      (''chicken'', [''tofu'', ''jackfruit'']),
      (''tomato'', [''canned tomatoes'', ''tomato sauce'', ''tomato paste + water'']),
      (''onion'', [''shallots'', ''leeks'', ''onion powder'']),
      (''potato'', [''sweet potato'', ''cauliflower'', ''turnips'']),
      (''carrot'', [''sweet potato'', ''butternut squash'', ''parsnips'']),
      (''bell_pepper'', [''poblano'', ''zucchini'', ''carrot'']),
      (''spinach'', [''kale'', ''arugula'', ''chard'']),
      (''lemon'', [''lime'', ''vinegar + a pinch of sugar'']),
      (''lime'', [''lemon'', ''white vinegar'']),
      (''rice'', [''quinoa'', ''cauliflower rice'']),
      (''pasta'', [''zoodles'', ''rice noodles'', ''quinoa'']),
      (''ground_beef'', [''turkey'', ''chicken'', ''lentils'']),
      (''beef'', [''mushrooms'', ''jackfruit'', ''seitan'']),
      (''fish'', [''tofu'', ''tempeh'', ''chickpeas'']),
      (''soy_sauce'', [''tamari'', ''coconut aminos'', ''Worcestershire'']),
      (''vinegar'', [''lemon juice'', ''lime juice'']),
      (''oil'', [''butter'', ''ghee'', ''coconut oil'']),
      (''honey'', [''maple syrup'', ''agave'']),
      (''vanilla'', [''almond extract'', ''maple syrup'']),
      (''breadcrumbs'', [''crushed crackers'', ''rolled oats'', ''panko'']),
      (''cornstarch'', [''flour'', ''arrowroot powder'', ''potato starch'']),
      (''baking_powder'', [''baking soda + cream of tartar'']),
      (''baking_soda'', [''baking powder (use 3x amount)''])]"

definition defaultSubs :: "string \<rightharpoonup> string list" where
  "defaultSubs = map_of defaultSubs_table"

text \<open>The handler, with the dictionary as a parameter. The dictionary is read only after
  the cache has answered \<^verbatim>\<open>undefined\<close>, so the key is then no inherited name and a plain
  map describes the read. An inherited member found by the cache read is a function for
  \<^verbatim>\<open>constructor\<close>, which JSON leaves out, and an object for \<^verbatim>\<open>__proto__\<close>.\<close>

definition resolve ::
  "(string \<rightharpoonup> string list) \<Rightarrow> world \<Rightarrow> subs_cache \<Rightarrow> string option
     \<Rightarrow> subs_reply \<times> subs_cache \<times> ext_call list" where
  "resolve dict w subsCache q =
     (case q of
        None \<Rightarrow> (BadRequest [''Please provide an ingredient name''], subsCache, [])
      | Some ingredient \<Rightarrow>
          if ingredient = []
          then (BadRequest [''Please provide an ingredient name''], subsCache, [])
          else
            (let lower = toLowerCase ingredient
             in case get_property subsCache lower of
                  Own cached \<Rightarrow> (Answer ingredient (Substitutes cached), subsCache, [])
                | Inherited \<Rightarrow>
                    (Answer ingredient (if lower = ''constructor'' then Missing else OtherTruthy),
                     subsCache, [])
                | Undefined \<Rightarrow>
                    (case dict lower of
                       Some fallback \<Rightarrow> (Answer ingredient (Substitutes fallback), subsCache, [])
                     | None \<Rightarrow>
                         (case substitutes w ingredient of
                            Rejected \<Rightarrow>
                              (Answer ingredient (Substitutes [no_known ingredient]), subsCache,
                               [SubstitutesOf ingredient])
                          | Resolved data \<Rightarrow>
                              (case data_substitutes data of
                                 None \<Rightarrow>
                                   (Answer ingredient (Substitutes [no_known ingredient]),
                                    subsCache, [SubstitutesOf ingredient])
                               | Some raw \<Rightarrow>
                                   if data_status data = ''failure''
                                   then (Answer ingredient (Substitutes [no_known ingredient]),
                                         subsCache, [SubstitutesOf ingredient])
                                   else (Forwarded data, subsCache(lower \<mapsto> raw),
                                         [SubstitutesOf ingredient]))))))"

definition substitutions_handler ::
  "world \<Rightarrow> subs_cache \<Rightarrow> string option \<Rightarrow> subs_reply \<times> subs_cache \<times> ext_call list" where
  "substitutions_handler w subsCache q = resolve defaultSubs w subsCache q"

subsection \<open>fetchSubstitutions (lines 39 to 89)\<close>

text \<open>\<^verbatim>\<open>replace(/.*=\s*/g, "")\<close>. From the place where the search stands, \<^verbatim>\<open>.*\<close> runs to the
  end of the line and gives characters back until an equals sign follows, so a match ends
  at the last equals sign of the line and then takes the white space behind it, line
  terminators included. The search goes on behind the match. A line without an equals
  sign is kept with its terminator.\<close>

function strip_label :: "string \<Rightarrow> string" where
  "strip_label s =
     (let line = takeWhile (\<lambda>c. \<not> is_line_terminator c) s;
          rest = dropWhile (\<lambda>c. \<not> is_line_terminator c) s
      in if CHR ''='' \<in> set line
         then strip_label (dropWhile is_space
                (rev (takeWhile (\<lambda>c. c \<noteq> CHR ''='') (rev line)) @ rest))
         else (case rest of [] \<Rightarrow> line | t # rest' \<Rightarrow> line @ t # strip_label rest'))"
  by pat_completeness auto
termination
proof (relation "measure length")
  show "wf (measure length)" by simp
next
  fix s line rest :: string
  assume line: "line = takeWhile (\<lambda>c. \<not> is_line_terminator c) s"
    and rest: "rest = dropWhile (\<lambda>c. \<not> is_line_terminator c) s"
    and eq: "CHR ''='' \<in> set line"
  let ?label = "dropWhile (\<lambda>c. c \<noteq> CHR ''='') (rev line)"
  let ?after = "takeWhile (\<lambda>c. c \<noteq> CHR ''='') (rev line)"
  have "?label \<noteq> []" using eq by simp
  then have "0 < length ?label" by simp
  moreover have "length ?after + length ?label = length line"
    by (simp only: length_append [symmetric] takeWhile_dropWhile_id length_rev)
  ultimately have "length ?after < length line" by linarith
  moreover have "length line + length rest = length s"
    unfolding line rest by (simp only: length_append [symmetric] takeWhile_dropWhile_id)
  ultimately have "length (rev ?after @ rest) < length s" by simp
  moreover have "length (dropWhile is_space (rev ?after @ rest)) \<le> length (rev ?after @ rest)"
    by (rule length_dropWhile_le)
  ultimately show "(dropWhile is_space (rev ?after @ rest), s) \<in> measure length" by simp
next
  fix s line rest :: string and t rest'
  assume rest: "rest = dropWhile (\<lambda>c. \<not> is_line_terminator c) s"
    and split: "rest = t # rest'"
  have "length rest \<le> length s"
    unfolding rest by (rule length_dropWhile_le)
  moreover have "length rest = Suc (length rest')"
    unfolding split by simp
  ultimately show "(rest', s) \<in> measure length" by simp
qed

declare strip_label.simps [simp del]

text \<open>The alternation \<^verbatim>\<open>(cup|tbsp|tsp|oz|grams?|ml|cups?|tablespoons?|teaspoons?)\<close> in the
  order in which the matcher tries it; an optional \<^verbatim>\<open>s\<close> is tried first with the
  \<^verbatim>\<open>s\<close>.\<close>

definition unit_alternatives :: "string list" where
  "unit_alternatives =
     [''cup'', ''tbsp'', ''tsp'', ''oz'', ''grams'', ''gram'', ''ml'', ''cups'', ''cup'',
      ''tablespoons'', ''tablespoon'', ''teaspoons'', ''teaspoon'']"

text \<open>One alternative followed by \<^verbatim>\<open>\b\<close>, under the flag \<^verbatim>\<open>i\<close>: the text starts with the
  unit in either case and goes on with no word character.\<close>

definition matches_here :: "string \<Rightarrow> string \<Rightarrow> bool" where
  "matches_here u t \<longleftrightarrow>
     map toLowerChar (take (length u) t) = u \<and>
     (case drop (length u) t of [] \<Rightarrow> True | c # _ \<Rightarrow> \<not> is_word c)"

text \<open>The text behind the unit, when an alternative matches.\<close>

definition match_unit :: "string \<Rightarrow> string option" where
  "match_unit t =
     map_option (\<lambda>u. drop (length u) t) (find (\<lambda>u. matches_here u t) unit_alternatives)"

text \<open>\<^verbatim>\<open>replace(/\b\d+\s*(...)\b/gi, "")\<close>. \<open>prev_word\<close> says whether the character in front
  of the current place is a word character: a match starts at a digit with none in front.
  The digits and the white space of a match are maximal runs, since neither a digit nor
  white space starts a unit.\<close>

function strip_units_from :: "bool \<Rightarrow> string \<Rightarrow> string" where
  "strip_units_from prev_word [] = []"
| "strip_units_from prev_word (c # cs) =
     (if \<not> prev_word \<and> is_digit c
      then (case match_unit (dropWhile is_space (dropWhile is_digit cs)) of
              Some rest \<Rightarrow> strip_units_from True rest
            | None \<Rightarrow> c # strip_units_from True cs)
      else c # strip_units_from (is_word c) cs)"
  by pat_completeness auto
termination
proof (relation "measure (\<lambda>(p, s). length s)")
  show "wf (measure (\<lambda>(p :: bool, s :: string). length s))" by simp
next
  fix prev_word c cs rest
  assume "match_unit (dropWhile is_space (dropWhile is_digit cs)) = Some rest"
  then obtain u :: string
    where "rest = drop (length u) (dropWhile is_space (dropWhile is_digit cs))"
    by (auto simp: match_unit_def)
  then have "length rest \<le> length (dropWhile is_space (dropWhile is_digit cs))" by simp
  also have "\<dots> \<le> length (dropWhile is_digit cs)" by (rule length_dropWhile_le)
  also have "\<dots> \<le> length cs" by (rule length_dropWhile_le)
  finally show "((True, rest), (prev_word, c # cs)) \<in> measure (\<lambda>(p, s). length s)" by simp
next
  fix prev_word c cs
  show "((True, cs), (prev_word, c # cs)) \<in> measure (\<lambda>(p, s). length s)" by simp
next
  fix prev_word c cs
  show "((is_word c, cs), (prev_word, c # cs)) \<in> measure (\<lambda>(p, s). length s)" by simp
qed

definition strip_units :: "string \<Rightarrow> string" where
  "strip_units s = strip_units_from False s"

text \<open>The callback of \<^verbatim>\<open>substitutes.map\<close>.\<close>

definition cleanSub :: "string \<Rightarrow> string" where
  "cleanSub s = trim (strip_units (strip_label s))"

text \<open>Lines 48 to 68: what is stored for the ingredient when the reply has status 200 and
  a list of substitutes.\<close>

definition displaySubs :: "string \<Rightarrow> string list \<Rightarrow> string list" where
  "displaySubs ingredient subs =
     (let cleanSubs = filter (\<lambda>s. s \<noteq> []) (map cleanSub subs);
          uniqueSubs = spread_set (map trim cleanSubs)
      in if uniqueSubs \<noteq> [] then uniqueSubs else [no_known ingredient])"

text \<open>What \<^verbatim>\<open>axios.get\<close> gives the client: the promise is rejected when the backend cannot
  be reached or answers with a status outside 2xx.\<close>

datatype axios_result = Failed | Response nat subs_field

definition backend_result :: "subs_reply \<Rightarrow> axios_result" where
  "backend_result r =
     (case r of
        BadRequest msg \<Rightarrow> Failed
      | Answer ingredient field \<Rightarrow> Response 200 field
      | Forwarded data \<Rightarrow>
          Response 200 (case data_substitutes data of None \<Rightarrow> Missing | Some l \<Rightarrow> Substitutes l))"

text \<open>The new value of the state \<^verbatim>\<open>subs\<close>. A truthy value that is no list passes the test
  of line 47 and has no \<^verbatim>\<open>map\<close>: the call throws, which the handler of the \<^verbatim>\<open>try\<close>
  catches. A falsy value fails the test like a missing field. The loading flags are left
  out.\<close>

definition fetchSubstitutions ::
  "axios_result \<Rightarrow> string \<Rightarrow> (string \<rightharpoonup> string list) \<Rightarrow> (string \<rightharpoonup> string list)" where
  "fetchSubstitutions res ingredient subs =
     subs(ingredient \<mapsto>
       (case res of
          Failed \<Rightarrow> [''Could not fetch substitutes.'']
        | Response status field \<Rightarrow>
            (case field of
               Substitutes l \<Rightarrow>
                 if status = 200 then displaySubs ingredient l else [no_known ingredient]
             | OtherTruthy \<Rightarrow>
                 if status = 200 then [''Could not fetch substitutes.'']
                 else [no_known ingredient]
             | Missing \<Rightarrow> [no_known ingredient])))"

subsection \<open>Notions used to state the properties\<close>

text \<open>An ingredient key: letters a to z and single spaces, with no space at either end.\<close>

definition key_char :: "char \<Rightarrow> bool" where
  "key_char c \<longleftrightarrow> is_lower_az c \<or> c = CHR '' ''"

definition space_pair :: "char \<Rightarrow> char \<Rightarrow> bool" where
  "space_pair a b \<longleftrightarrow> is_space a \<and> is_space b"

definition is_key :: "string \<Rightarrow> bool" where
  "is_key s \<longleftrightarrow>
     list_all key_char s \<and> successively (\<lambda>a b. \<not> space_pair a b) s \<and>
     (s = [] \<or> (\<not> is_space (hd s) \<and> \<not> is_space (last s)))"

text \<open>The order of the ranking: a higher score first, and on equal scores a candidate that
  matches the cuisine not behind one that does not.\<close>

definition ranks_no_later :: "recipe \<Rightarrow> recipe \<Rightarrow> bool" where
  "ranks_no_later a b \<longleftrightarrow>
     score b < score a \<or> (score a = score b \<and> (matchesCuisine a \<or> \<not> matchesCuisine b))"




subsection \<open>Concrete requests and catalogs\<close>

definition some_ingredient :: ingredient where
  "some_ingredient = \<lparr> ing_id = 0, ing_name = ''x'' \<rparr>"

definition candidate :: "int \<Rightarrow> nat \<Rightarrow> nat \<Rightarrow> bool \<Rightarrow> recipe" where
  "candidate i used missed m =
     \<lparr> recipe_id = i, title = [], recipe_image = [], cuisines = [], dishTypes = [],
       readyInMinutes = 0,
       usedIngredients = replicate used some_ingredient,
       missedIngredients = replicate missed some_ingredient,
       matchesCuisine = m, sourceUrl = None \<rparr>"

definition raw_candidate :: "int \<Rightarrow> raw_recipe" where
  "raw_candidate i =
     \<lparr> raw_id = i, raw_title = [], raw_image = [], raw_cuisines = None, raw_dishTypes = None,
       raw_readyInMinutes = None, raw_usedIngredients = None, raw_missedIngredients = None \<rparr>"

definition query_for :: "string \<Rightarrow> query" where
  "query_for ingredients =
     \<lparr> q_ingredients = Some ingredients, q_number = None, q_cuisine = None \<rparr>"

text \<open>A catalog that cannot be reached.\<close>

definition offline :: world where
  "offline =
     \<lparr> findByIngredients = (\<lambda>ingredients number. Rejected),
       information = (\<lambda>i. Rejected),
       substitutes = (\<lambda>name. Rejected) \<rparr>"

text \<open>A catalog with three recipes; the detail lookup of the second one fails.\<close>

definition three_recipes :: world where
  "three_recipes =
     \<lparr> findByIngredients =
         (\<lambda>ingredients number. Resolved [raw_candidate 1, raw_candidate 2, raw_candidate 3]),
       information = (\<lambda>i. if i = 2 then Rejected else Resolved (Some ''http://r'')),
       substitutes =
         (\<lambda>name. Resolved \<lparr> data_status = ''success'',
                             data_substitutes = Some [''1 cup = collards''],
                             data_message = [] \<rparr>) \<rparr>"

text \<open>The list in the body of a reply, for a reply that has one.\<close>

definition json_of :: "recipes_reply \<Rightarrow> recipe list" where
  "json_of r = (case r of Json recipes \<Rightarrow> recipes | Status code msg \<Rightarrow> [] | Uncaught \<Rightarrow> [])"

section \<open>Properties\<close>

subsection \<open>Sets in insertion order\<close>

lemma set_set_add_all: "set (set_add_all seen xs) = set seen \<union> set xs"
  by (induction xs arbitrary: seen) auto

lemma distinct_set_add_all: "distinct seen \<Longrightarrow> distinct (set_add_all seen xs)"
  by (induction xs arbitrary: seen) auto

lemma set_add_all_known: "set xs \<subseteq> set seen \<Longrightarrow> set_add_all seen xs = seen"
  by (induction xs arbitrary: seen) auto

lemma set_add_all_append:
  "set_add_all seen (xs @ ys) = set_add_all (set_add_all seen xs) ys"
  by (induction xs arbitrary: seen) auto

lemma set_add_all_fresh:
  "distinct xs \<Longrightarrow> set xs \<inter> set seen = {} \<Longrightarrow> set_add_all seen xs = seen @ xs"
  by (induction xs arbitrary: seen) auto

lemma set_spread_set: "set (spread_set xs) = set xs"
  by (simp add: spread_set_def set_set_add_all)

lemma distinct_spread_set: "distinct (spread_set xs)"
  by (simp add: spread_set_def distinct_set_add_all)

lemma spread_set_distinct: "distinct xs \<Longrightarrow> spread_set xs = xs"
  using set_add_all_fresh [of xs "[]"] by (simp add: spread_set_def)

subsection \<open>Pantry augmentation\<close>

lemma augment_again: "augment (augment s) = augment s"
proof -
  have "augment (augment s) = set_add_all (spread_set (augment s)) pantry"
    by (simp add: augment_def spread_set_def set_add_all_append)
  also have "spread_set (augment s) = augment s"
    by (rule spread_set_distinct) (simp add: augment_def distinct_spread_set)
  also have "set_add_all (augment s) pantry = augment s"
    by (rule set_add_all_known) (simp add: augment_def set_spread_set)
  finally show ?thesis .
qed

lemma set_augment: "set (augment s) = set s \<union> {''salt'', ''oil''}"
  by (simp add: augment_def set_spread_set pantry_def)

text \<open>
  C9. For every list of keys \<open>s\<close>, the augmented list holds \<open>salt\<close> and \<open>oil\<close>, has no
  duplicate, and is left unchanged by a second augmentation; as a set it is \<open>s\<close> with the
  two staples added, so it does not depend on the order of \<open>s\<close>; the sets \<open>{salt}\<close> and
  \<open>{oil, salt}\<close> both give the set \<open>{salt, oil}\<close>.
\<close>

theorem pantry_augmentation:
  "''salt'' \<in> set (augment s) \<and> ''oil'' \<in> set (augment s) \<and> distinct (augment s)
   \<and> augment (augment s) = augment s
   \<and> set (augment s) = set s \<union> {''salt'', ''oil''}
   \<and> set (augment [''salt'']) = {''salt'', ''oil''}
   \<and> set (augment [''oil'', ''salt'']) = {''salt'', ''oil''}"
proof -
  have "distinct (augment s)" by (simp add: augment_def distinct_spread_set)
  moreover have "set (augment [''salt'']) = {''salt'', ''oil''}"
    unfolding set_augment by auto
  moreover have "set (augment [''oil'', ''salt'']) = {''salt'', ''oil''}"
    unfolding set_augment by auto
  ultimately show ?thesis using set_augment [of s] augment_again [of s] by simp
qed

subsection \<open>Ranking\<close>

lemma compare_le: "compare_recipes a b \<le> 0 \<longleftrightarrow> ranks_no_later a b"
  by (cases "matchesCuisine a"; cases "matchesCuisine b")
    (auto simp: compare_recipes_def ranks_no_later_def Let_def)

lemma compare_total: "\<not> compare_recipes a b \<le> 0 \<Longrightarrow> ranks_no_later b a"
  by (cases "matchesCuisine a"; cases "matchesCuisine b")
    (auto simp: compare_recipes_def ranks_no_later_def Let_def split: if_splits)

lemma ranks_trans: "ranks_no_later a b \<Longrightarrow> ranks_no_later b c \<Longrightarrow> ranks_no_later a c"
  by (auto simp: ranks_no_later_def)

lemma compare_pos_key:
  "\<not> compare_recipes a b \<le> 0 \<Longrightarrow> \<not> (score b = score a \<and> matchesCuisine b = matchesCuisine a)"
  by (cases "matchesCuisine a"; cases "matchesCuisine b")
    (auto simp: compare_recipes_def Let_def)

text \<open>The comparator is a consistent ordering, so the result of the sort is determined.\<close>

lemma compare_recipes_consistent:
  "compare_recipes a a = 0
   \<and> (compare_recipes a b < 0 \<longleftrightarrow> 0 < compare_recipes b a)
   \<and> (compare_recipes a b = 0 \<longleftrightarrow> score a = score b \<and> matchesCuisine a = matchesCuisine b)
   \<and> (compare_recipes a b \<le> 0 \<and> compare_recipes b c \<le> 0 \<longrightarrow> compare_recipes a c \<le> 0)"
proof -
  have "compare_recipes a b < 0 \<longleftrightarrow> 0 < compare_recipes b a"
    by (cases "matchesCuisine a"; cases "matchesCuisine b")
      (auto simp: compare_recipes_def Let_def)
  moreover have "compare_recipes a b = 0 \<longleftrightarrow> score a = score b \<and> matchesCuisine a = matchesCuisine b"
    by (cases "matchesCuisine a"; cases "matchesCuisine b")
      (auto simp: compare_recipes_def Let_def)
  moreover have "compare_recipes a b \<le> 0 \<and> compare_recipes b c \<le> 0 \<longrightarrow> compare_recipes a c \<le> 0"
    using ranks_trans [of a b c] by (simp add: compare_le)
  ultimately show ?thesis by (simp add: compare_recipes_def)
qed

lemma mset_insert_sorted: "mset (insert_sorted cmp x ys) = add_mset x (mset ys)"
  by (induction ys) auto

lemma mset_js_sort: "mset (js_sort cmp xs) = mset xs"
  by (induction xs) (auto simp: mset_insert_sorted)

lemma set_insert_sorted: "set (insert_sorted cmp x ys) = insert x (set ys)"
  by (induction ys) auto

lemma sorted_insert_sorted:
  "sorted_wrt ranks_no_later ys \<Longrightarrow>
   sorted_wrt ranks_no_later (insert_sorted compare_recipes x ys)"
proof (induction ys)
  case Nil
  show ?case by simp
next
  case (Cons y ys)
  show ?case
  proof (cases "compare_recipes x y \<le> 0")
    case True
    then have xy: "ranks_no_later x y" by (simp add: compare_le)
    have "\<forall>z\<in>set ys. ranks_no_later x z"
      using Cons.prems xy by (auto intro: ranks_trans)
    with True xy Cons.prems show ?thesis by simp
  next
    case False
    then have "ranks_no_later y x" by (rule compare_total)
    with False Cons show ?thesis by (auto simp: set_insert_sorted)
  qed
qed

lemma sorted_rank: "sorted_wrt ranks_no_later (rank rs)"
  unfolding rank_def by (induction rs) (auto intro: sorted_insert_sorted)

lemma mset_rank: "mset (rank rs) = mset rs"
  by (simp add: rank_def mset_js_sort)

lemma set_rank: "set (rank rs) = set rs"
  using mset_rank [of rs] by (rule mset_eq_setD)

lemma length_rank: "length (rank rs) = length rs"
  using mset_rank [of rs] by (rule mset_eq_length)

lemma filter_insert_sorted:
  "filter (\<lambda>r. score r = s \<and> matchesCuisine r = m) (insert_sorted compare_recipes x ys) =
   (if score x = s \<and> matchesCuisine x = m
    then x # filter (\<lambda>r. score r = s \<and> matchesCuisine r = m) ys
    else filter (\<lambda>r. score r = s \<and> matchesCuisine r = m) ys)"
  by (induction ys) (auto dest: compare_pos_key)

lemma filter_rank:
  "filter (\<lambda>r. score r = s \<and> matchesCuisine r = m) (rank rs) =
   filter (\<lambda>r. score r = s \<and> matchesCuisine r = m) rs"
  unfolding rank_def by (induction rs) (simp_all add: filter_insert_sorted)

text \<open>
  C4. For every sequence of candidates, the ranking is a rearrangement of the sequence in
  which the number of used ingredients minus the number of missed ingredients never
  increases, in which of two candidates with the same difference one that matches the
  cuisine never stands behind one that does not, and in which the candidates that agree on
  the difference and on \<open>matchesCuisine\<close> stand in the order of the input.
\<close>

theorem rank_stable_sort:
  "mset (rank rs) = mset rs
   \<and> sorted_wrt
        (\<lambda>a b. int (length (usedIngredients b)) - int (length (missedIngredients b))
               \<le> int (length (usedIngredients a)) - int (length (missedIngredients a)))
        (rank rs)
   \<and> sorted_wrt
        (\<lambda>a b. int (length (usedIngredients a)) - int (length (missedIngredients a))
               = int (length (usedIngredients b)) - int (length (missedIngredients b))
               \<longrightarrow> matchesCuisine b \<longrightarrow> matchesCuisine a)
        (rank rs)
   \<and> (\<forall>d m.
         filter (\<lambda>r. int (length (usedIngredients r)) - int (length (missedIngredients r)) = d
                     \<and> matchesCuisine r = m) (rank rs) =
         filter (\<lambda>r. int (length (usedIngredients r)) - int (length (missedIngredients r)) = d
                     \<and> matchesCuisine r = m) rs)"
proof -
  have "sorted_wrt (\<lambda>a b. score b \<le> score a) (rank rs)"
    using sorted_rank [of rs]
    by (rule sorted_wrt_mono_rel [rotated]) (auto simp: ranks_no_later_def)
  moreover
  have "sorted_wrt (\<lambda>a b. score a = score b \<longrightarrow> matchesCuisine b \<longrightarrow> matchesCuisine a) (rank rs)"
    using sorted_rank [of rs]
    by (rule sorted_wrt_mono_rel [rotated]) (auto simp: ranks_no_later_def)
  moreover
  have "filter (\<lambda>r. score r = d \<and> matchesCuisine r = m) (rank rs) =
        filter (\<lambda>r. score r = d \<and> matchesCuisine r = m) rs" for d m
    by (rule filter_rank)
  ultimately show ?thesis
    by (simp add: mset_rank score_def)
qed

text \<open>Five candidates with the differences -1, 2, 2, 5 and 2. The candidate with 5 comes
  first and the one with -1 last; of the three with 2 the one that matches the cuisine
  comes first, and the other two keep the order of the input.\<close>

theorem rank_stable_sort_witness:
  "rank [candidate 1 1 2 True, candidate 2 3 1 False, candidate 3 2 0 True,
         candidate 4 5 0 False, candidate 5 3 1 False]
     = [candidate 4 5 0 False, candidate 3 2 0 True, candidate 2 3 1 False,
        candidate 5 3 1 False, candidate 1 1 2 True]
   \<and> map (\<lambda>r. int (length (usedIngredients r)) - int (length (missedIngredients r)))
       (rank [candidate 1 1 2 True, candidate 2 3 1 False, candidate 3 2 0 True,
              candidate 4 5 0 False, candidate 5 3 1 False])
     = [5, 2, 2, 2, -1]
   \<and> filter (\<lambda>r. int (length (usedIngredients r)) - int (length (missedIngredients r)) = 2
                 \<and> matchesCuisine r = False)
       (rank [candidate 1 1 2 True, candidate 2 3 1 False, candidate 3 2 0 True,
              candidate 4 5 0 False, candidate 5 3 1 False])
     = [candidate 2 3 1 False, candidate 5 3 1 False]
   \<and> rank [candidate 1 3 1 False, candidate 2 2 0 True, candidate 3 3 1 True]
     = [candidate 2 2 0 True, candidate 3 3 1 True, candidate 1 3 1 False]"
proof -
  have five: "rank [candidate 1 1 2 True, candidate 2 3 1 False, candidate 3 2 0 True,
         candidate 4 5 0 False, candidate 5 3 1 False]
     = [candidate 4 5 0 False, candidate 3 2 0 True, candidate 2 3 1 False,
        candidate 5 3 1 False, candidate 1 1 2 True]"
    by (simp add: rank_def compare_recipes_def score_def candidate_def)
  have three: "rank [candidate 1 3 1 False, candidate 2 2 0 True, candidate 3 3 1 True]
     = [candidate 2 2 0 True, candidate 3 3 1 True, candidate 1 3 1 False]"
    by (simp add: rank_def compare_recipes_def score_def candidate_def)
  have differences:
    "map (\<lambda>r. int (length (usedIngredients r)) - int (length (missedIngredients r)))
       [candidate 4 5 0 False, candidate 3 2 0 True, candidate 2 3 1 False,
        candidate 5 3 1 False, candidate 1 1 2 True]
     = [5, 2, 2, 2, -1]"
    by (simp add: candidate_def)
  have tied:
    "filter (\<lambda>r. int (length (usedIngredients r)) - int (length (missedIngredients r)) = 2
                 \<and> matchesCuisine r = False)
       [candidate 4 5 0 False, candidate 3 2 0 True, candidate 2 3 1 False,
        candidate 5 3 1 False, candidate 1 1 2 True]
     = [candidate 2 3 1 False, candidate 5 3 1 False]"
    by (simp add: candidate_def)
  show ?thesis
    using rank_stable_sort [of "[candidate 1 1 2 True, candidate 2 3 1 False,
        candidate 3 2 0 True, candidate 4 5 0 False, candidate 5 3 1 False]"]
    by (simp only: five three differences tied)
qed

subsection \<open>Normalisation\<close>

lemma space_is_space: "is_space CHR '' ''"
  by (simp add: is_space_def code_unit_def)

lemma az_not_space: "is_lower_az c \<Longrightarrow> \<not> is_space c"
  by (auto simp: is_space_def is_lower_az_def)

lemma toLowerChar_az: "is_lower_az c \<Longrightarrow> toLowerChar c = c"
  by (simp add: toLowerChar_def is_lower_az_def Let_def)

lemma toLowerChar_space: "is_space c \<Longrightarrow> toLowerChar c = c"
  by (auto simp: toLowerChar_def is_space_def Let_def)

lemma key_char_lower: "key_char c \<Longrightarrow> toLowerChar c = c"
  using toLowerChar_az toLowerChar_space space_is_space by (auto simp: key_char_def)

lemma key_char_keep: "key_char c \<Longrightarrow> is_lower_az c \<or> is_space c"
  using space_is_space by (auto simp: key_char_def)

lemma key_char_space: "key_char c \<Longrightarrow> is_space c \<Longrightarrow> c = CHR '' ''"
  using az_not_space by (auto simp: key_char_def)

lemma collapse_from_chars:
  "list_all (\<lambda>c. is_lower_az c \<or> is_space c) s \<Longrightarrow> list_all key_char (collapse_from b s)"
  by (induction s arbitrary: b) (auto simp: key_char_def)

lemma collapse_from_head:
  "collapse_from True s = [] \<or> \<not> is_space (hd (collapse_from True s))"
  by (induction s) auto

lemma collapse_from_single:
  "successively (\<lambda>a b. \<not> space_pair a b) (collapse_from b s)"
proof (induction s arbitrary: b)
  case Nil
  show ?case by simp
next
  case (Cons c cs)
  show ?case
  proof (cases "is_space c")
    case True
    have "successively (\<lambda>a b. \<not> space_pair a b) (CHR '' '' # collapse_from True cs)"
      using collapse_from_head [of cs] Cons.IH [of True]
      by (cases "collapse_from True cs") (auto simp: space_pair_def)
    with True Cons.IH [of True] show ?thesis by simp
  next
    case False
    have "successively (\<lambda>a b. \<not> space_pair a b) (c # collapse_from False cs)"
      using False Cons.IH [of False]
      by (cases "collapse_from False cs") (auto simp: space_pair_def)
    with False show ?thesis by simp
  qed
qed

lemma collapse_from_fixed:
  "list_all key_char s \<Longrightarrow> successively (\<lambda>a b. \<not> space_pair a b) s \<Longrightarrow>
   s = [] \<or> \<not> (b \<and> is_space (hd s)) \<Longrightarrow> collapse_from b s = s"
proof (induction s arbitrary: b)
  case Nil
  show ?case by simp
next
  case (Cons c cs)
  have tl_ok: "list_all key_char cs" "successively (\<lambda>a b. \<not> space_pair a b) cs"
    using Cons.prems by (auto simp: successively_Cons)
  show ?case
  proof (cases "is_space c")
    case True
    have "cs = [] \<or> \<not> (True \<and> is_space (hd cs))"
      using Cons.prems(2) True by (cases cs) (auto simp: space_pair_def)
    then have "collapse_from True cs = cs"
      using Cons.IH tl_ok by blast
    moreover have "c = CHR '' ''" "\<not> b"
      using Cons.prems True by (auto dest: key_char_space)
    ultimately show ?thesis using True by simp
  next
    case False
    have "collapse_from False cs = cs"
      using Cons.IH [of False] tl_ok by simp
    with False show ?thesis by simp
  qed
qed

lemma successively_dropWhile:
  "successively P xs \<Longrightarrow> successively P (dropWhile Q xs)"
  by (induction xs) (auto simp: successively_Cons)

lemma trim_chars: "list_all P s \<Longrightarrow> list_all P (trim s)"
  unfolding trim_def list_all_iff by (metis set_rev set_dropWhileD)

lemma trim_single:
  assumes "successively (\<lambda>a b. \<not> space_pair a b) s"
  shows "successively (\<lambda>a b. \<not> space_pair a b) (trim s)"
proof -
  let ?a = "dropWhile is_space s"
  have "successively (\<lambda>a b. \<not> space_pair a b) ?a"
    using assms by (rule successively_dropWhile)
  then have "successively (\<lambda>x y. \<not> space_pair y x) ?a"
    by (rule successively_mono) (auto simp: space_pair_def)
  then have "successively (\<lambda>a b. \<not> space_pair a b) (rev ?a)"
    by (simp only: successively_rev)
  then have "successively (\<lambda>a b. \<not> space_pair a b) (dropWhile is_space (rev ?a))"
    by (rule successively_dropWhile)
  then have "successively (\<lambda>x y. \<not> space_pair y x) (dropWhile is_space (rev ?a))"
    by (rule successively_mono) (auto simp: space_pair_def)
  then show ?thesis
    by (simp only: trim_def successively_rev)
qed

lemma trim_ends: "trim s = [] \<or> (\<not> is_space (hd (trim s)) \<and> \<not> is_space (last (trim s)))"
proof (cases "trim s = []")
  case True
  then show ?thesis by simp
next
  case False
  let ?a = "dropWhile is_space s"
  let ?b = "dropWhile is_space (rev ?a)"
  have b: "?b \<noteq> []" using False by (simp add: trim_def)
  then have hb: "\<not> is_space (hd ?b)" by (rule hd_dropWhile)
  have a: "?a \<noteq> []"
  proof
    assume "?a = []"
    then have "?b = []" by (simp only: rev.simps dropWhile.simps)
    with b show False by simp
  qed
  then have ha: "\<not> is_space (hd ?a)" by (rule hd_dropWhile)
  have "last ?b = last (rev ?a)"
    using b by (metis takeWhile_dropWhile_id last_appendR)
  then have lb: "last ?b = hd ?a" using a by (simp add: last_rev)
  have "hd (trim s) = last ?b" "last (trim s) = hd ?b"
    using b by (simp_all add: trim_def hd_rev last_rev)
  with ha hb lb show ?thesis by simp
qed

lemma trim_fixed: "s = [] \<or> (\<not> is_space (hd s) \<and> \<not> is_space (last s)) \<Longrightarrow> trim s = s"
proof (cases s)
  case Nil
  then show ?thesis by (simp add: trim_def)
next
  case (Cons c cs)
  assume "s = [] \<or> (\<not> is_space (hd s) \<and> \<not> is_space (last s))"
  with Cons have h: "\<not> is_space (hd s)" and l: "\<not> is_space (last s)" by auto
  have 1: "dropWhile is_space s = s" using h by (simp only: dropWhile_eq_self_iff) simp
  have "\<not> is_space (hd (rev s))" using l by (simp add: hd_rev)
  then have 2: "dropWhile is_space (rev s) = rev s" by (simp only: dropWhile_eq_self_iff) simp
  show ?thesis by (simp add: trim_def 1 2)
qed


lemma normalizeIngredient_is_key: "is_key (normalizeIngredient x)"
proof -
  let ?f = "filter (\<lambda>c. is_lower_az c \<or> is_space c) (toLowerCase x)"
  have "list_all (\<lambda>c. is_lower_az c \<or> is_space c) ?f" by (simp add: list_all_iff)
  then have "list_all key_char (collapse_spaces ?f)"
    unfolding collapse_spaces_def by (rule collapse_from_chars)
  then have 1: "list_all key_char (normalizeIngredient x)"
    unfolding normalizeIngredient_def by (rule trim_chars)
  have 2: "successively (\<lambda>a b. \<not> space_pair a b) (normalizeIngredient x)"
    unfolding normalizeIngredient_def collapse_spaces_def
    by (rule trim_single) (rule collapse_from_single)
  show ?thesis
    unfolding is_key_def using 1 2 trim_ends [of "collapse_spaces ?f"]
    by (simp add: normalizeIngredient_def)
qed

lemma is_key_fixed: "is_key s \<Longrightarrow> normalizeIngredient s = s"
proof -
  assume k: "is_key s"
  then have chars: "list_all key_char s" by (simp add: is_key_def)
  have 1: "toLowerCase s = s"
    unfolding toLowerCase_def using chars by (induction s) (auto dest: key_char_lower)
  have 2: "filter (\<lambda>c. is_lower_az c \<or> is_space c) s = s"
    using chars by (induction s) (auto dest: key_char_keep)
  have 3: "collapse_spaces s = s"
    unfolding collapse_spaces_def using k
    by (intro collapse_from_fixed) (auto simp: is_key_def)
  have 4: "trim s = s" using k by (intro trim_fixed) (auto simp: is_key_def)
  show ?thesis by (simp add: normalizeIngredient_def 1 2 3 4)
qed

lemma filter_dropWhile_other:
  "(\<And>x. Q x \<Longrightarrow> \<not> P x) \<Longrightarrow> filter P (dropWhile Q xs) = filter P xs"
  by (induction xs) auto

lemma letters_trim: "filter is_lower_az (trim s) = filter is_lower_az s"
proof -
  have drop: "filter is_lower_az (dropWhile is_space xs) = filter is_lower_az xs" for xs
    by (rule filter_dropWhile_other) (auto dest: az_not_space)
  show ?thesis
    by (simp add: trim_def rev_filter [symmetric] drop)
qed

lemma letters_collapse_from: "filter is_lower_az (collapse_from b s) = filter is_lower_az s"
  using az_not_space space_is_space by (induction s arbitrary: b) auto

lemma letters_normalizeIngredient:
  "filter is_lower_az (normalizeIngredient x) = filter is_lower_az (toLowerCase x)"
proof -
  have "filter is_lower_az (filter (\<lambda>c. is_lower_az c \<or> is_space c) s) = filter is_lower_az s"
    for s by (induction s) auto
  then show ?thesis
    by (simp add: normalizeIngredient_def letters_trim collapse_spaces_def letters_collapse_from)
qed

text \<open>
  C8. \<open>normalizeIngredient\<close> is a function on all strings whose second application
  changes nothing. Its result is a key (letters a to z and single spaces, no space at
  either end) that keeps exactly the letters of the input in lower case, and the empty
  string gives the empty string.
\<close>

theorem normalizeIngredient_idempotent:
  "normalizeIngredient (normalizeIngredient x) = normalizeIngredient x
   \<and> normalizeIngredient [] = []
   \<and> is_key (normalizeIngredient x)
   \<and> filter is_lower_az (normalizeIngredient x) = filter is_lower_az (toLowerCase x)"
proof -
  have "normalizeIngredient (normalizeIngredient x) = normalizeIngredient x"
    by (rule is_key_fixed) (rule normalizeIngredient_is_key)
  moreover have "normalizeIngredient [] = []"
    by (simp add: normalizeIngredient_def toLowerCase_def collapse_spaces_def trim_def)
  ultimately show ?thesis
    by (simp add: normalizeIngredient_is_key letters_normalizeIngredient)
qed

theorem normalizeIngredient_idempotent_witness:
  "normalizeIngredient ''  Garlic,  FRESH! '' = ''garlic fresh''
   \<and> normalizeIngredient (normalizeIngredient ''  Garlic,  FRESH! '') = ''garlic fresh''
   \<and> is_key ''garlic fresh''"
proof -
  have e: "normalizeIngredient ''  Garlic,  FRESH! '' = ''garlic fresh''"
    by code_simp
  show ?thesis
    using normalizeIngredient_idempotent [of "''  Garlic,  FRESH! ''"] by (simp add: e)
qed

subsection \<open>The recipe handler\<close>

lemma cacheKey_own:
  "get_property recipeCache (cacheKey fin number cuisine) =
     (case recipeCache (cacheKey fin number cuisine) of None \<Rightarrow> Undefined | Some v \<Rightarrow> Own v)"
proof -
  have "CHR ''|'' \<in> set (cacheKey fin number cuisine)"
    by (simp add: cacheKey_def)
  then have "cacheKey fin number cuisine \<notin> set inherited_names"
    by (auto simp: inherited_names_def)
  then show ?thesis
    by (simp add: get_property_def split: option.splits)
qed

lemma join_comma_nonempty: "x \<in> set xs \<Longrightarrow> x \<noteq> [] \<Longrightarrow> join_comma xs \<noteq> []"
  by (induction xs rule: join_comma.induct) auto

lemma finalIngredients_nonempty: "finalIngredients s \<noteq> []"
proof -
  have "''salt'' \<in> set (augment (ingSet s))" by (simp add: set_augment)
  then show ?thesis unfolding finalIngredients_def by (rule join_comma_nonempty) simp
qed

lemma set_slice0: "set (slice0 n xs) \<subseteq> set xs"
  by (auto simp: slice0_def dest: in_set_takeD)

lemma slice0_all: "int (length xs) \<le> n \<Longrightarrow> slice0 n xs = xs"
  by (simp add: slice0_def)

lemma recipe_id_resolveSourceUrl: "recipe_id (resolveSourceUrl w r) = recipe_id r"
  by (simp add: resolveSourceUrl_def)

lemma sourceUrl_resolveSourceUrl:
  "sourceUrl (resolveSourceUrl w r) =
     Some (case information w (recipe_id r) of
             Rejected \<Rightarrow> ''#''
           | Resolved None \<Rightarrow> ''#''
           | Resolved (Some u) \<Rightarrow> if u = [] then ''#'' else u)"
  by (simp add: resolveSourceUrl_def)

lemma recipe_id_shapeRecipe: "recipe_id (shapeRecipe cuisine r) = raw_id r"
  by (simp add: shapeRecipe_def)

lemma sourceUrl_shapeRecipe: "sourceUrl (shapeRecipe cuisine r) = None"
  by (simp add: shapeRecipe_def)

lemma handler_miss:
  assumes "q_ingredients q = Some ingredients"
    and "recipeCache (requestKey q ingredients) = None"
  shows "recipes_handler w recipeCache q =
     (case findByIngredients w (finalIngredients ingredients) (requestedNumber q) of
        Rejected \<Rightarrow>
          (Status 500 ''Failed to fetch recipes'', recipeCache,
           [FindByIngredients (finalIngredients ingredients) (requestedNumber q)])
      | Resolved data \<Rightarrow>
          (Json (slice0 (requestedNumber q)
                  (rank (fetchDetails w (map (shapeRecipe (requestedCuisine q)) data)))),
           recipeCache(requestKey q ingredients \<mapsto>
             slice0 (requestedNumber q)
               (rank (fetchDetails w (map (shapeRecipe (requestedCuisine q)) data)))),
           FindByIngredients (finalIngredients ingredients) (requestedNumber q)
             # map (\<lambda>r. Information (raw_id r)) data))"
  using assms finalIngredients_nonempty [of ingredients]
  by (simp add: recipes_handler_def requestKey_def Let_def recipe_id_shapeRecipe o_def
      split: outcome.splits)

lemma handler_hit:
  assumes "q_ingredients q = Some ingredients"
    and "recipeCache (requestKey q ingredients) = Some cached"
  shows "recipes_handler w recipeCache q = (Json cached, recipeCache, [])"
  using assms by (simp add: recipes_handler_def requestKey_def Let_def)

lemma handler_missing: "q_ingredients q = None \<Longrightarrow> recipes_handler w recipeCache q = (Uncaught, recipeCache, [])"
  by (simp add: recipes_handler_def)

lemma built_recipe:
  assumes "r \<in> set (slice0 n (rank (fetchDetails w (map (shapeRecipe cuisine) data))))"
  shows "\<exists>raw \<in> set data. r = resolveSourceUrl w (shapeRecipe cuisine raw)"
proof -
  let ?details = "fetchDetails w (map (shapeRecipe cuisine) data)"
  have "r \<in> set (rank ?details)"
    using assms set_slice0 [of n "rank ?details"] by (rule set_mp [rotated])
  then have "r \<in> set ?details"
    by (simp only: set_rank)
  then show ?thesis by (auto simp: fetchDetails_def)
qed

lemma no_input_error: "fst (recipes_handler w cache q) \<noteq> Status 400 msg"
  using finalIngredients_nonempty
  by (auto simp: recipes_handler_def Let_def split: option.splits outcome.splits)

lemma three_recipes_run:
  "recipes_handler three_recipes Map.empty (query_for s) =
     (Json (slice0 3 (rank (fetchDetails three_recipes
              [shapeRecipe [] (raw_candidate 1), shapeRecipe [] (raw_candidate 2),
               shapeRecipe [] (raw_candidate 3)]))),
      [requestKey (query_for s) s \<mapsto>
         slice0 3 (rank (fetchDetails three_recipes
              [shapeRecipe [] (raw_candidate 1), shapeRecipe [] (raw_candidate 2),
               shapeRecipe [] (raw_candidate 3)]))],
      [FindByIngredients (finalIngredients s) 3, Information 1, Information 2, Information 3])"
proof -
  have q: "q_ingredients (query_for s) = Some s" "requestedNumber (query_for s) = 3"
    "requestedCuisine (query_for s) = []"
    by (simp_all add: query_for_def requestedNumber_def requestedCuisine_def)
  have w: "findByIngredients three_recipes (finalIngredients s) 3 =
      Resolved [raw_candidate 1, raw_candidate 2, raw_candidate 3]"
    by (simp add: three_recipes_def)
  show ?thesis
    using handler_miss [of "query_for s" s Map.empty three_recipes]
    by (simp add: q w) (simp add: raw_candidate_def)
qed

lemma three_recipes_urls:
  "map sourceUrl (slice0 3 (rank (fetchDetails three_recipes
       [shapeRecipe [] (raw_candidate 1), shapeRecipe [] (raw_candidate 2),
               shapeRecipe [] (raw_candidate 3)])))
   = [Some ''http://r'', Some ''#'', Some ''http://r'']"
  by code_simp

text \<open>
  C10. On a cache miss that ends in a reply with recipes, every recipe of the reply has a
  \<open>sourceUrl\<close> that is a non-empty string, either the placeholder or the one that the
  detail lookup gave, and the list stored under the key of the request is the list of the
  reply; a candidate as first built has no \<open>sourceUrl\<close>.
\<close>

theorem sourceUrl_assigned:
  assumes "q_ingredients q = Some ingredients"
    and "recipeCache (requestKey q ingredients) = None"
    and "recipes_handler w recipeCache q = (Json recipes, recipeCache', calls)"
  shows "(\<forall>r \<in> set recipes. \<exists>u. sourceUrl r = Some u \<and> u \<noteq> []
            \<and> (u = ''#'' \<or> information w (recipe_id r) = Resolved (Some u)))
     \<and> recipeCache' (requestKey q ingredients) = Some recipes
     \<and> (\<forall>cuisine raw. sourceUrl (shapeRecipe cuisine raw) = None)"
proof -
  obtain data where
    recipes: "recipes = slice0 (requestedNumber q)
                 (rank (fetchDetails w (map (shapeRecipe (requestedCuisine q)) data)))"
    and cache: "recipeCache' = recipeCache(requestKey q ingredients \<mapsto> recipes)"
    using assms(3) unfolding handler_miss [of q ingredients recipeCache w, OF assms(1,2)]
    by (auto split: outcome.splits)
  have "\<exists>u. sourceUrl r = Some u \<and> u \<noteq> []
          \<and> (u = ''#'' \<or> information w (recipe_id r) = Resolved (Some u))"
    if mem: "r \<in> set recipes" for r
  proof -
    obtain raw where r: "r = resolveSourceUrl w (shapeRecipe (requestedCuisine q) raw)"
      using mem built_recipe unfolding recipes by blast
    show ?thesis
      unfolding r
      by (auto simp: sourceUrl_resolveSourceUrl recipe_id_resolveSourceUrl
          split: outcome.splits option.splits)
  qed
  then show ?thesis
    by (simp add: cache sourceUrl_shapeRecipe)
qed


theorem sourceUrl_assigned_witness:
  "q_ingredients (query_for ''egg'') = Some ''egg''
   \<and> (Map.empty :: recipe_cache) (requestKey (query_for ''egg'') ''egg'') = None
   \<and> length (json_of (fst (recipes_handler three_recipes Map.empty (query_for ''egg'')))) = 3
   \<and> list_all (\<lambda>r. \<exists>u. sourceUrl r = Some u \<and> u \<noteq> [])
        (json_of (fst (recipes_handler three_recipes Map.empty (query_for ''egg''))))"
proof -
  have q: "q_ingredients (query_for ''egg'') = Some ''egg''"
    by (simp add: query_for_def)
  have miss: "(Map.empty :: recipe_cache) (requestKey (query_for ''egg'') ''egg'') = None"
    by simp
  have len: "length (json_of (fst (recipes_handler three_recipes Map.empty (query_for ''egg'')))) = 3"
    using arg_cong [OF three_recipes_urls, of length]
    by (simp add: three_recipes_run json_of_def)
  show ?thesis
    using sourceUrl_assigned [OF q miss three_recipes_run [of "''egg''"]] q len
    by (simp add: three_recipes_run json_of_def list_all_iff) blast
qed

text \<open>
  C6. On a cache miss where the search call answers with no more candidates than the
  requested number, the request succeeds with as many recipes as the catalog gave
  candidates, with the same identifiers; a recipe whose detail lookup fails has the
  placeholder as \<open>sourceUrl\<close>, and a recipe whose detail lookup gives a non-empty URL has
  that URL.
\<close>

theorem detail_failure_isolated:
  assumes "q_ingredients q = Some ingredients"
    and "recipeCache (requestKey q ingredients) = None"
    and "findByIngredients w (finalIngredients ingredients) (requestedNumber q) = Resolved data"
    and "int (length data) \<le> requestedNumber q"
  shows "\<exists>recipes.
       recipes_handler w recipeCache q =
         (Json recipes, recipeCache(requestKey q ingredients \<mapsto> recipes),
          FindByIngredients (finalIngredients ingredients) (requestedNumber q)
            # map (\<lambda>r. Information (raw_id r)) data)
     \<and> length recipes = length data
     \<and> mset (map recipe_id recipes) = mset (map raw_id data)
     \<and> (\<forall>r \<in> set recipes. information w (recipe_id r) = Rejected \<longrightarrow> sourceUrl r = Some ''#'')
     \<and> (\<forall>r \<in> set recipes. \<forall>u. information w (recipe_id r) = Resolved (Some u) \<longrightarrow> u \<noteq> []
            \<longrightarrow> sourceUrl r = Some u)"
proof -
  let ?details = "fetchDetails w (map (shapeRecipe (requestedCuisine q)) data)"
  let ?recipes = "slice0 (requestedNumber q) (rank ?details)"
  have len: "length (rank ?details) = length data"
    by (simp add: length_rank fetchDetails_def)
  then have all: "?recipes = rank ?details"
    using assms(4) by (simp add: slice0_all)
  have handler: "recipes_handler w recipeCache q =
         (Json ?recipes, recipeCache(requestKey q ingredients \<mapsto> ?recipes),
          FindByIngredients (finalIngredients ingredients) (requestedNumber q)
            # map (\<lambda>r. Information (raw_id r)) data)"
    unfolding handler_miss [of q ingredients recipeCache w, OF assms(1,2)]
    by (simp add: assms(3))
  have "mset (map recipe_id (rank ?details)) = mset (map recipe_id ?details)"
    by (simp add: mset_rank)
  also have "map recipe_id ?details = map raw_id data"
    by (simp add: fetchDetails_def recipe_id_resolveSourceUrl recipe_id_shapeRecipe)
  finally have ids: "mset (map recipe_id ?recipes) = mset (map raw_id data)"
    by (simp only: all)
  have urls: "(information w (recipe_id r) = Rejected \<longrightarrow> sourceUrl r = Some ''#'')
      \<and> (\<forall>u. information w (recipe_id r) = Resolved (Some u) \<longrightarrow> u \<noteq> [] \<longrightarrow> sourceUrl r = Some u)"
    if mem: "r \<in> set ?recipes" for r
  proof -
    obtain raw where r: "r = resolveSourceUrl w (shapeRecipe (requestedCuisine q) raw)"
      using mem built_recipe by blast
    show ?thesis
      by (simp add: r sourceUrl_resolveSourceUrl recipe_id_resolveSourceUrl)
  qed
  have "length ?recipes = length data"
    by (simp only: all len)
  with handler ids urls show ?thesis
    by (intro exI [of _ ?recipes]) blast
qed

text \<open>Three candidates, the detail lookup of the second fails: three recipes come back and
  the second one alone has the placeholder.\<close>

theorem detail_failure_isolated_witness:
  "q_ingredients (query_for ''egg'') = Some ''egg''
   \<and> (Map.empty :: recipe_cache) (requestKey (query_for ''egg'') ''egg'') = None
   \<and> findByIngredients three_recipes (finalIngredients ''egg'') (requestedNumber (query_for ''egg''))
       = Resolved [raw_candidate 1, raw_candidate 2, raw_candidate 3]
   \<and> int (length [raw_candidate 1, raw_candidate 2, raw_candidate 3])
       \<le> requestedNumber (query_for ''egg'')
   \<and> information three_recipes 2 = Rejected
   \<and> length (json_of (fst (recipes_handler three_recipes Map.empty (query_for ''egg'')))) = 3
   \<and> map sourceUrl (json_of (fst (recipes_handler three_recipes Map.empty (query_for ''egg''))))
       = [Some ''http://r'', Some ''#'', Some ''http://r'']"
proof -
  have q: "q_ingredients (query_for ''egg'') = Some ''egg''"
    by (simp add: query_for_def)
  have miss: "(Map.empty :: recipe_cache) (requestKey (query_for ''egg'') ''egg'') = None"
    by simp
  have n: "requestedNumber (query_for ''egg'') = 3"
    by (simp add: requestedNumber_def query_for_def)
  have found: "findByIngredients three_recipes (finalIngredients ''egg'')
       (requestedNumber (query_for ''egg''))
       = Resolved [raw_candidate 1, raw_candidate 2, raw_candidate 3]"
    by (simp add: three_recipes_def)
  have few: "int (length [raw_candidate 1, raw_candidate 2, raw_candidate 3])
       \<le> requestedNumber (query_for ''egg'')"
    by (simp add: n)
  have rejected: "information three_recipes 2 = Rejected"
    by (simp add: three_recipes_def)
  have "length (json_of (fst (recipes_handler three_recipes Map.empty (query_for ''egg'')))) = 3"
    using detail_failure_isolated [OF q miss found few] by auto (simp add: json_of_def)
  then show ?thesis
    using q found few rejected
    by (simp add: three_recipes_run json_of_def three_recipes_urls)
qed

subsection \<open>The cache key\<close>

lemma code_unit_toLowerChar:
  "code_unit (toLowerChar c) =
     (if (65 \<le> code_unit c \<and> code_unit c \<le> 90)
         \<or> (192 \<le> code_unit c \<and> code_unit c \<le> 222 \<and> code_unit c \<noteq> 215)
      then code_unit c + 32 else code_unit c)"
  by (simp add: toLowerChar_def code_unit_def Let_def)

lemma code_unit_eq_iff: "code_unit c = code_unit d \<longleftrightarrow> c = d"
  by (simp add: code_unit_def)

lemma toLowerChar_comma: "toLowerChar c = CHR '','' \<longleftrightarrow> c = CHR '',''"
proof -
  have comma: "code_unit CHR '','' = 44" by (simp add: code_unit_def)
  have "toLowerChar c = CHR '','' \<longleftrightarrow> code_unit (toLowerChar c) = 44"
    by (simp only: code_unit_eq_iff [symmetric] comma)
  also have "\<dots> \<longleftrightarrow> code_unit c = 44"
    by (auto simp: code_unit_toLowerChar)
  also have "\<dots> \<longleftrightarrow> c = CHR '',''"
    by (simp only: code_unit_eq_iff [symmetric] comma)
  finally show ?thesis .
qed

lemma split_comma_not_Nil: "split_comma s \<noteq> []"
  by (induction s) (auto split: list.splits)

lemma split_comma_toLowerCase: "split_comma (toLowerCase s) = map toLowerCase (split_comma s)"
proof (induction s)
  case Nil
  show ?case by (simp add: toLowerCase_def)
next
  case (Cons c cs)
  then have IH: "split_comma (map toLowerChar cs) = map (map toLowerChar) (split_comma cs)"
    by (simp add: toLowerCase_def [abs_def])
  show ?case
    using split_comma_not_Nil [of cs]
    by (cases "split_comma cs")
      (simp_all add: toLowerCase_def [abs_def] toLowerChar_comma IH)
qed

lemma normalizeIngredient_toLowerCase:
  "toLowerCase x = toLowerCase y \<Longrightarrow> normalizeIngredient x = normalizeIngredient y"
  by (simp add: normalizeIngredient_def)

lemma finalIngredients_casing:
  assumes "toLowerCase a = toLowerCase b"
  shows "finalIngredients a = finalIngredients b"
proof -
  have "map toLowerCase (split_comma a) = map toLowerCase (split_comma b)"
    using assms by (simp only: split_comma_toLowerCase [symmetric])
  then have "list_all2 (\<lambda>x y. toLowerCase x = toLowerCase y) (split_comma a) (split_comma b)"
    by (simp add: list_all2_conv_all_nth list_eq_iff_nth_eq)
  then have "map normalizeIngredient (split_comma a) = map normalizeIngredient (split_comma b)"
    by (induction rule: list_all2_induct) (auto intro: normalizeIngredient_toLowerCase)
  then show ?thesis
    by (simp add: finalIngredients_def ingSet_def cleanIngredients_def)
qed

lemma requestKey_update:
  "requestKey (q\<lparr>q_ingredients := v\<rparr>) s = requestKey q s"
  by (simp add: requestKey_def requestedNumber_def requestedCuisine_def)

text \<open>
  C1, as the code has it. Two ingredient strings that agree once every letter is put in
  lower case give the same cache key under the same number and cuisine; and when the first
  of two such requests is answered with recipes, the second is answered with the same
  recipes from the cache, whatever the catalog does then, with no call to it.
\<close>

theorem cacheKey_ignores_casing:
  assumes "toLowerCase a = toLowerCase b"
  shows "requestKey q a = requestKey q b
     \<and> (\<forall>w w' cache rs cache' calls.
          recipes_handler w cache (q\<lparr>q_ingredients := Some a\<rparr>) = (Json rs, cache', calls)
          \<longrightarrow> recipes_handler w' cache' (q\<lparr>q_ingredients := Some b\<rparr>) = (Json rs, cache', []))"
proof -
  have key: "requestKey q a = requestKey q b"
    using finalIngredients_casing [OF assms] by (simp add: requestKey_def)
  have second: "recipes_handler w' cache' (q\<lparr>q_ingredients := Some b\<rparr>) = (Json rs, cache', [])"
    if first: "recipes_handler w cache (q\<lparr>q_ingredients := Some a\<rparr>) = (Json rs, cache', calls)"
    for w w' cache rs cache' calls
  proof -
    let ?qa = "q\<lparr>q_ingredients := Some a\<rparr>"
    let ?qb = "q\<lparr>q_ingredients := Some b\<rparr>"
    have qa: "q_ingredients ?qa = Some a" and qb: "q_ingredients ?qb = Some b" by simp_all
    have stored: "cache' (requestKey q a) = Some rs"
    proof (cases "cache (requestKey ?qa a)")
      case None
      show ?thesis
        using first unfolding handler_miss [of ?qa a cache w, OF qa None]
        by (auto simp: requestKey_update split: outcome.splits)
    next
      case (Some cached)
      show ?thesis
        using first Some unfolding handler_hit [of ?qa a cache cached w, OF qa Some]
        by (simp add: requestKey_update)
    qed
    then have "cache' (requestKey ?qb b) = Some rs"
      by (simp add: requestKey_update key)
    with qb show ?thesis by (rule handler_hit)
  qed
  from key second show ?thesis by blast
qed

theorem cacheKey_ignores_casing_witness:
  "toLowerCase ''Egg,MILK'' = toLowerCase ''egg,milk''
   \<and> requestKey (query_for []) ''Egg,MILK'' = ''egg,milk,salt,oil|3|''
   \<and> requestKey (query_for []) ''egg,milk'' = ''egg,milk,salt,oil|3|''
   \<and> recipes_handler offline
        (fst (snd (recipes_handler three_recipes Map.empty (query_for ''Egg,MILK''))))
        (query_for ''egg,milk'')
      = (fst (recipes_handler three_recipes Map.empty (query_for ''Egg,MILK'')),
         fst (snd (recipes_handler three_recipes Map.empty (query_for ''Egg,MILK''))), [])"
proof -
  have lower: "toLowerCase ''Egg,MILK'' = toLowerCase ''egg,milk''"
    by code_simp
  have key: "requestKey (query_for []) ''egg,milk'' = ''egg,milk,salt,oil|3|''"
    by code_simp
  have upd: "(query_for [])\<lparr>q_ingredients := Some s\<rparr> = query_for s" for s
    by (simp add: query_for_def)
  note main = cacheKey_ignores_casing [OF lower, of "query_for []"]
  from main have same: "requestKey (query_for []) ''Egg,MILK'' = requestKey (query_for []) ''egg,milk''"
    by (rule conjunct1)
  have second: "recipes_handler offline C (query_for ''egg,milk'') = (Json R, C, [])"
    if "recipes_handler three_recipes Map.empty (query_for ''Egg,MILK'') = (Json R, C, L)"
    for R C L
    using main that unfolding upd by blast
  have "recipes_handler offline
        (fst (snd (recipes_handler three_recipes Map.empty (query_for ''Egg,MILK''))))
        (query_for ''egg,milk'')
      = (fst (recipes_handler three_recipes Map.empty (query_for ''Egg,MILK'')),
         fst (snd (recipes_handler three_recipes Map.empty (query_for ''Egg,MILK''))), [])"
    using second [OF three_recipes_run [of "''Egg,MILK''"]]
    by (simp add: three_recipes_run)
  with lower same key show ?thesis by simp
qed

text \<open>The claim as stated fails for a change of order: the tokens of \<open>egg,milk\<close> and of
  \<open>milk,egg\<close> are the same, the keys differ, and the second request, sent after the first,
  goes to the catalog again.\<close>

theorem cacheKey_order_counterexample:
  "mset (split_comma ''egg,milk'') = mset (split_comma ''milk,egg'')
   \<and> requestKey (query_for ''egg,milk'') ''egg,milk'' = ''egg,milk,salt,oil|3|''
   \<and> requestKey (query_for ''milk,egg'') ''milk,egg'' = ''milk,egg,salt,oil|3|''
   \<and> requestKey (query_for ''egg,milk'') ''egg,milk''
       \<noteq> requestKey (query_for ''milk,egg'') ''milk,egg''
   \<and> snd (snd (recipes_handler three_recipes
        (fst (snd (recipes_handler three_recipes Map.empty (query_for ''egg,milk''))))
        (query_for ''milk,egg'')))
      = [FindByIngredients ''milk,egg,salt,oil'' 3, Information 1, Information 2, Information 3]"
proof -
  have tokens: "mset (split_comma ''egg,milk'') = mset (split_comma ''milk,egg'')"
    by (simp add: add_mset_commute)
  have k1: "requestKey (query_for ''egg,milk'') ''egg,milk'' = ''egg,milk,salt,oil|3|''"
    by code_simp
  have k2: "requestKey (query_for ''milk,egg'') ''milk,egg'' = ''milk,egg,salt,oil|3|''"
    by code_simp
  have again: "snd (snd (recipes_handler three_recipes
        (fst (snd (recipes_handler three_recipes Map.empty (query_for ''egg,milk''))))
        (query_for ''milk,egg'')))
      = [FindByIngredients ''milk,egg,salt,oil'' 3, Information 1, Information 2, Information 3]"
    by code_simp
  show ?thesis
    using tokens again by (simp add: k1 k2)
qed

text \<open>
  C2, on the code. The staples are added before the guard \<open>!finalIngredients\<close> is read, so
  the guard never holds: an empty or blank ingredient string is sent to the catalog as
  \<open>salt,oil\<close>, and a request without the parameter ends in an exception outside the
  \<^verbatim>\<open>try\<close>, not in status 400.
\<close>

theorem blank_ingredients_reach_catalog:
  "recipes_handler offline Map.empty (query_for []) =
     (Status 500 ''Failed to fetch recipes'', Map.empty, [FindByIngredients ''salt,oil'' 3])
   \<and> recipes_handler offline Map.empty (query_for ''  '') =
     (Status 500 ''Failed to fetch recipes'', Map.empty, [FindByIngredients ''salt,oil'' 3])
   \<and> snd (snd (recipes_handler three_recipes Map.empty (query_for []))) =
       [FindByIngredients ''salt,oil'' 3, Information 1, Information 2, Information 3]
   \<and> recipes_handler offline Map.empty \<lparr>q_ingredients = None, q_number = None, q_cuisine = None\<rparr>
       = (Uncaught, Map.empty, [])"
proof -
  have blank: "finalIngredients [] = ''salt,oil''" "finalIngredients ''  '' = ''salt,oil''"
    by code_simp+
  have n: "requestedNumber (query_for s) = 3" for s
    by (simp add: requestedNumber_def query_for_def)
  have off: "findByIngredients offline s k = Rejected" for s k
    by (simp add: offline_def)
  have miss: "recipes_handler offline Map.empty (query_for s) =
      (Status 500 ''Failed to fetch recipes'', Map.empty,
       [FindByIngredients (finalIngredients s) 3])" for s
    using handler_miss [of "query_for s" s Map.empty offline]
    by (simp add: n off) (simp add: query_for_def)
  show ?thesis
    by (simp add: miss blank three_recipes_run handler_missing)
qed

subsection \<open>The substitution handler\<close>

lemma resolve_cached:
  assumes "ingredient \<noteq> []" and "subsCache (toLowerCase ingredient) = Some cached"
  shows "resolve dict w subsCache (Some ingredient) =
     (Answer ingredient (Substitutes cached), subsCache, [])"
  using assms by (simp add: resolve_def get_property_def Let_def)

lemma resolve_fallback:
  assumes "ingredient \<noteq> []" and "get_property subsCache (toLowerCase ingredient) = Undefined"
    and "dict (toLowerCase ingredient) = Some fallback"
  shows "resolve dict w subsCache (Some ingredient) =
     (Answer ingredient (Substitutes fallback), subsCache, [])"
  using assms by (simp add: resolve_def Let_def)

lemma resolve_external:
  assumes "ingredient \<noteq> []" and "get_property subsCache (toLowerCase ingredient) = Undefined"
    and "dict (toLowerCase ingredient) = None"
  shows "resolve dict w subsCache (Some ingredient) =
     (case substitutes w ingredient of
        Rejected \<Rightarrow>
          (Answer ingredient (Substitutes [no_known ingredient]), subsCache,
           [SubstitutesOf ingredient])
      | Resolved data \<Rightarrow>
          (case data_substitutes data of
             None \<Rightarrow>
               (Answer ingredient (Substitutes [no_known ingredient]), subsCache,
                [SubstitutesOf ingredient])
           | Some raw \<Rightarrow>
               if data_status data = ''failure''
               then (Answer ingredient (Substitutes [no_known ingredient]), subsCache,
                     [SubstitutesOf ingredient])
               else (Forwarded data, subsCache(toLowerCase ingredient \<mapsto> raw),
                     [SubstitutesOf ingredient])))"
  using assms by (simp add: resolve_def Let_def)

lemma get_property_Undefined:
  "get_property obj k = Undefined \<longleftrightarrow> obj k = None \<and> k \<notin> set inherited_names"
  by (simp add: get_property_def split: option.splits)

text \<open>
  The tiers, for a request whose ingredient in lower case is no member name of
  \<^verbatim>\<open>Object.prototype\<close>: when the cache holds a list under the ingredient in lower case,
  the reply is that list, whatever the dictionary and the catalog hold, and neither the
  cache changes nor the catalog is called; when the cache has no entry and the dictionary
  has one, the reply is the entry and the cache is unchanged; when neither has one and the
  catalog gives a list without reporting failure, the reply is the body of the catalog and
  the list is stored under the ingredient in lower case.
\<close>

lemma tier_order:
  assumes "ingredient \<noteq> []"
  shows "(\<forall>cached. subsCache (toLowerCase ingredient) = Some cached \<longrightarrow>
            (\<forall>dict w. resolve dict w subsCache (Some ingredient) =
               (Answer ingredient (Substitutes cached), subsCache, [])))
     \<and> (\<forall>fallback. subsCache (toLowerCase ingredient) = None
            \<and> toLowerCase ingredient \<notin> set inherited_names
            \<and> defaultSubs (toLowerCase ingredient) = Some fallback \<longrightarrow>
            substitutions_handler w subsCache (Some ingredient) =
               (Answer ingredient (Substitutes fallback), subsCache, []))
     \<and> (\<forall>data raw. subsCache (toLowerCase ingredient) = None
            \<and> toLowerCase ingredient \<notin> set inherited_names
            \<and> defaultSubs (toLowerCase ingredient) = None
            \<and> substitutes w ingredient = Resolved data
            \<and> data_substitutes data = Some raw \<and> data_status data \<noteq> ''failure'' \<longrightarrow>
            substitutions_handler w subsCache (Some ingredient) =
               (Forwarded data, subsCache(toLowerCase ingredient \<mapsto> raw),
                [SubstitutesOf ingredient]))"
  using assms
  by (auto simp: substitutions_handler_def resolve_cached resolve_fallback resolve_external
      get_property_Undefined)

text \<open>
  C5, on the code. The cache is an object literal, and the read \<^verbatim>\<open>subsCache[lower]\<close> also
  finds what the object inherits. For the ingredient \<open>Constructor\<close> or \<open>__proto__\<close> and an
  empty cache, with no entry in the dictionary and a catalog that would answer, the handler
  takes the inherited member for a cached list: the reply carries no list of substitutes,
  the dictionary and the catalog are not asked, and nothing is stored. For \<open>kale\<close> the same
  catalog is asked and its list is stored.
\<close>

theorem inherited_name_taken_for_cached:
  "(Map.empty :: subs_cache) (toLowerCase ''Constructor'') = None
   \<and> defaultSubs (toLowerCase ''Constructor'') = None
   \<and> substitutes three_recipes ''Constructor'' =
       Resolved \<lparr> data_status = ''success'', data_substitutes = Some [''1 cup = collards''],
                  data_message = [] \<rparr>
   \<and> substitutions_handler three_recipes Map.empty (Some ''Constructor'')
       = (Answer ''Constructor'' Missing, Map.empty, [])
   \<and> (Map.empty :: subs_cache) (toLowerCase ''__proto__'') = None
   \<and> defaultSubs (toLowerCase ''__proto__'') = None
   \<and> substitutions_handler three_recipes Map.empty (Some ''__proto__'')
       = (Answer ''__proto__'' OtherTruthy, Map.empty, [])
   \<and> substitutions_handler three_recipes Map.empty (Some ''kale'')
       = (Forwarded \<lparr> data_status = ''success'', data_substitutes = Some [''1 cup = collards''],
                      data_message = [] \<rparr>,
          [''kale'' \<mapsto> [''1 cup = collards'']], [SubstitutesOf ''kale''])"
proof -
  have lower: "toLowerCase ''Constructor'' = ''constructor''"
    "toLowerCase ''__proto__'' = ''__proto__''" "toLowerCase ''kale'' = ''kale''"
    by code_simp+
  have dict: "defaultSubs ''constructor'' = None" "defaultSubs ''__proto__'' = None"
    "defaultSubs ''kale'' = None"
    by code_simp+
  have answer: "substitutes three_recipes name =
      Resolved \<lparr> data_status = ''success'', data_substitutes = Some [''1 cup = collards''],
                 data_message = [] \<rparr>" for name
    by (simp add: three_recipes_def)
  show ?thesis
    by (simp add: lower dict answer substitutions_handler_def resolve_def get_property_def
        inherited_names_def Let_def)
qed

text \<open>The three tiers on concrete requests.\<close>

lemma tier_order_examples:
  "''Milk'' \<noteq> []
   \<and> [''milk'' \<mapsto> [''cached milk'']] (toLowerCase ''Milk'') = Some [''cached milk'']
   \<and> defaultSubs (toLowerCase ''Milk'') = Some [''oat milk'', ''almond milk'', ''soy milk'']
   \<and> substitutions_handler offline [''milk'' \<mapsto> [''cached milk'']] (Some ''Milk'')
       = (Answer ''Milk'' (Substitutes [''cached milk'']), [''milk'' \<mapsto> [''cached milk'']], [])
   \<and> toLowerCase ''Milk'' \<notin> set inherited_names
   \<and> substitutions_handler offline Map.empty (Some ''Milk'')
       = (Answer ''Milk'' (Substitutes [''oat milk'', ''almond milk'', ''soy milk'']), Map.empty, [])
   \<and> defaultSubs (toLowerCase ''Kale'') = None
   \<and> substitutions_handler three_recipes Map.empty (Some ''Kale'')
       = (Forwarded \<lparr> data_status = ''success'', data_substitutes = Some [''1 cup = collards''],
                      data_message = [] \<rparr>,
          [''kale'' \<mapsto> [''1 cup = collards'']], [SubstitutesOf ''Kale''])"
proof -
  have milk: "toLowerCase ''Milk'' = ''milk''"
    "defaultSubs ''milk'' = Some [''oat milk'', ''almond milk'', ''soy milk'']"
    by code_simp+
  have own: "''milk'' \<notin> set inherited_names" "''kale'' \<notin> set inherited_names"
    by (simp_all add: inherited_names_def)
  have kale: "toLowerCase ''Kale'' = ''kale''" "defaultSubs ''kale'' = None"
    by code_simp+
  have answer: "substitutes three_recipes ''Kale'' =
      Resolved \<lparr> data_status = ''success'', data_substitutes = Some [''1 cup = collards''],
                 data_message = [] \<rparr>"
    by (simp add: three_recipes_def)
  have "substitutions_handler offline [''milk'' \<mapsto> [''cached milk'']] (Some ''Milk'')
       = (Answer ''Milk'' (Substitutes [''cached milk'']), [''milk'' \<mapsto> [''cached milk'']], [])"
    using tier_order [of "''Milk''" "[''milk'' \<mapsto> [''cached milk'']]" offline]
    by (simp add: milk substitutions_handler_def)
  moreover have "substitutions_handler offline Map.empty (Some ''Milk'')
       = (Answer ''Milk'' (Substitutes [''oat milk'', ''almond milk'', ''soy milk'']), Map.empty, [])"
    using tier_order [of "''Milk''" Map.empty offline] by (simp add: milk own)
  moreover have "substitutions_handler three_recipes Map.empty (Some ''Kale'')
       = (Forwarded \<lparr> data_status = ''success'', data_substitutes = Some [''1 cup = collards''],
                      data_message = [] \<rparr>,
          [''kale'' \<mapsto> [''1 cup = collards'']], [SubstitutesOf ''Kale''])"
    using tier_order [of "''Kale''" Map.empty three_recipes] by (simp add: kale own answer)
  ultimately show ?thesis by (simp add: milk kale own)
qed

text \<open>
  C3, as the code has it. When the catalog call fails, the handler answers with status 200
  and the one sentence \<open>No known substitutes for\<close> the ingredient, and leaves the cache as
  it was. The sentence \<open>Could not fetch substitutes.\<close> is what the client stores when its
  own request to the backend fails.
\<close>

theorem transport_failure_sentinel:
  assumes "ingredient \<noteq> []"
    and "get_property subsCache (toLowerCase ingredient) = Undefined"
    and "defaultSubs (toLowerCase ingredient) = None"
    and "substitutes w ingredient = Rejected"
  shows "substitutions_handler w subsCache (Some ingredient) =
       (Answer ingredient (Substitutes [''No known substitutes for '' @ ingredient]), subsCache,
        [SubstitutesOf ingredient])
     \<and> (\<forall>subs. fetchSubstitutions Failed ingredient subs =
           subs(ingredient \<mapsto> [''Could not fetch substitutes.'']))"
  using assms
  by (simp add: substitutions_handler_def resolve_external no_known_def fetchSubstitutions_def)

theorem transport_failure_sentinel_witness:
  "''kale'' \<noteq> []
   \<and> get_property (Map.empty :: subs_cache) (toLowerCase ''kale'') = Undefined
   \<and> defaultSubs (toLowerCase ''kale'') = None
   \<and> substitutes offline ''kale'' = Rejected
   \<and> substitutions_handler offline Map.empty (Some ''kale'')
       = (Answer ''kale'' (Substitutes [''No known substitutes for kale'']), Map.empty,
          [SubstitutesOf ''kale''])
   \<and> fetchSubstitutions Failed ''kale'' Map.empty = [''kale'' \<mapsto> [''Could not fetch substitutes.'']]"
proof -
  have kale: "toLowerCase ''kale'' = ''kale''" "defaultSubs ''kale'' = None"
    "get_property (Map.empty :: subs_cache) ''kale'' = Undefined"
    by code_simp+
  have off: "substitutes offline ''kale'' = Rejected"
    by (simp add: offline_def)
  show ?thesis
    using transport_failure_sentinel [of "''kale''" Map.empty offline] off
    by (simp add: kale)
qed

text \<open>The claim as stated fails: with the catalog out of reach, the reply for \<open>kale\<close> is not
  the list \<open>Could not fetch substitutes.\<close>, and the client shows the sentence of the
  handler.\<close>

theorem transport_failure_counterexample:
  "substitutes offline ''kale'' = Rejected
   \<and> fst (substitutions_handler offline Map.empty (Some ''kale''))
       = Answer ''kale'' (Substitutes [''No known substitutes for kale''])
   \<and> fst (substitutions_handler offline Map.empty (Some ''kale''))
       \<noteq> Answer ''kale'' (Substitutes [''Could not fetch substitutes.''])
   \<and> fetchSubstitutions (backend_result (fst (substitutions_handler offline Map.empty (Some ''kale''))))
         ''kale'' Map.empty ''kale'' = Some [''No known substitutes for kale'']"
proof -
  have off: "substitutes offline ''kale'' = Rejected"
    by (simp add: offline_def)
  have reply: "fst (substitutions_handler offline Map.empty (Some ''kale''))
       = Answer ''kale'' (Substitutes [''No known substitutes for kale''])"
    by code_simp
  have shown: "fetchSubstitutions (Response 200 (Substitutes [''No known substitutes for kale'']))
         ''kale'' Map.empty ''kale'' = Some [''No known substitutes for kale'']"
    by code_simp
  show ?thesis
    by (simp add: off reply backend_result_def shown)
qed

subsection \<open>Cleaning for display\<close>




































end
